theory Spec2Isabelle
  imports Main
begin

section \<open>Data model (src/components/ChatWidget/types.ts)\<close>

text \<open>
  JavaScript strings are modelled as \<open>string\<close>; a \<open>char\<close> stands for one code unit in
  the range 0..255. \<open>number\<close> timestamps (\<open>Date.now()\<close>) are integers. An optional
  field (\<open>sources?\<close>, \<open>chapter?\<close>) is an \<open>option\<close>, a nullable one
  (\<open>string | null\<close>) as well.
\<close>

datatype role = User | Assistant

record Source =
  title :: string
  url :: string
  module_s :: string
  chapter_s :: "string option"

record Message =
  id_m :: string
  role :: role
  content :: string
  timestamp :: int
  sources :: "Source list option"

record ChatResponse =
  response :: string
  sources_r :: "Source list"

record ChatError =
  error_e :: string
  code_e :: string

text \<open>The part of \<open>ChatState\<close> that the hook \<open>useChat\<close> owns.\<close>

record chat_state =
  messages :: "Message list"
  isLoading :: bool
  error :: "string option"

section \<open>The gateway (ChatAPI.sendQuery)\<close>

text \<open>
  A thrown value is either an instance of \<open>Error\<close>, with its message, or any other
  value. A promise that has settled is resolved with a value or rejected with a thrown
  value.
\<close>

datatype thrown = Error string | NonError

datatype 'a settled = Resolved 'a | Rejected thrown

text \<open>
  What the environment answers to \<open>fetch\<close>: the call itself rejects, or it yields a
  response whose \<open>ok\<close> flag is false or true, together with the outcome of
  \<open>response.json()\<close> on that path.
\<close>

datatype fetch_outcome =
  FetchRejected thrown
| NotOk "ChatError settled"
| Ok "ChatResponse settled"

text \<open>
  \<open>a || b\<close> on strings: the empty string is falsy.
\<close>

definition or_else :: "string \<Rightarrow> string \<Rightarrow> string" where
  "or_else a b = (if a \<noteq> [] then a else b)"

text \<open>
  \<open>sendQuery\<close>: the query goes into the body of the request; the second argument
  is what \<open>fetch\<close> answers to that request. Every throw inside the \<open>try\<close> is
  logged and thrown again by the \<open>catch\<close>, so it rejects the returned promise
  unchanged.
\<close>

fun sendQuery :: "string \<Rightarrow> fetch_outcome \<Rightarrow> ChatResponse settled" where
  "sendQuery query (FetchRejected t) = Rejected t"
| "sendQuery query (NotOk (Rejected t)) = Rejected t"
| "sendQuery query (NotOk (Resolved errorData)) =
     Rejected (Error (or_else (error_e errorData) ''Failed to get response''))"
| "sendQuery query (Ok (Rejected t)) = Rejected t"
| "sendQuery query (Ok (Resolved data)) = Resolved data"

section \<open>The chat hook (useChat)\<close>

definition useChat :: "Message list \<Rightarrow> chat_state" where
  "useChat initialMessages =
     \<lparr>messages = initialMessages, isLoading = False, error = None\<rparr>"

text \<open>
  \<open>sendMessage\<close> is asynchronous with one suspension point, the \<open>await\<close> of
  \<open>ChatAPI.sendQuery(content)\<close>. \<open>sendMessage_start\<close> is the synchronous part up to
  the \<open>await\<close>; it returns the new state and the query handed to the gateway.
  \<open>uid\<close> and \<open>now\<close> are what \<open>uuidv4()\<close> and \<open>Date.now()\<close> return.
\<close>

definition sendMessage_start ::
  "string \<Rightarrow> int \<Rightarrow> string \<Rightarrow> chat_state \<Rightarrow> chat_state \<times> string" where
  "sendMessage_start uid now txt st =
     (let st1 = st\<lparr>isLoading := True\<rparr>;
          st2 = st1\<lparr>error := None\<rparr>;
          userMessage = \<lparr>id_m = uid, role = User, content = txt, timestamp = now,
                         sources = None\<rparr>;
          st3 = st2\<lparr>messages := messages st2 @ [userMessage]\<rparr>
      in (st3, txt))"

text \<open>The message derived in the \<open>catch\<close> block.\<close>

definition errorMessage :: "thrown \<Rightarrow> string" where
  "errorMessage err = (case err of Error m \<Rightarrow> m | NonError \<Rightarrow> ''Failed to send message'')"

definition apology :: "string \<Rightarrow> string" where
  "apology m = ''Sorry, I encountered an error: '' @ m @ ''. Please try again.''"

text \<open>
  \<open>sendMessage_settle\<close> is the part after the \<open>await\<close>: the rest of the \<open>try\<close>
  block when the gateway promise resolved, the \<open>catch\<close> block when it rejected, and
  the \<open>finally\<close> block after either.
\<close>

definition sendMessage_settle ::
  "ChatResponse settled \<Rightarrow> string \<Rightarrow> int \<Rightarrow> chat_state \<Rightarrow> chat_state" where
  "sendMessage_settle outcome uid now st =
     (let st' =
        (case outcome of
           Resolved resp \<Rightarrow>
             (let assistantMessage =
                    \<lparr>id_m = uid, role = Assistant, content = response resp,
                     timestamp = now, sources = Some (sources_r resp)\<rparr>
              in st\<lparr>messages := messages st @ [assistantMessage]\<rparr>)
         | Rejected err \<Rightarrow>
             (let m = errorMessage err;
                  st1 = st\<lparr>error := Some m\<rparr>;
                  errorMsg =
                    \<lparr>id_m = uid, role = Assistant, content = apology m,
                     timestamp = now, sources = None\<rparr>
              in st1\<lparr>messages := messages st1 @ [errorMsg]\<rparr>))
      in st'\<lparr>isLoading := False\<rparr>)"

text \<open>
  One send that settles: the ids and clock readings of its two turns, and what
  \<open>fetch\<close> answered.
\<close>

record send_env =
  uid1 :: string
  now1 :: int
  fetched :: fetch_outcome
  uid2 :: string
  now2 :: int

definition sendMessage :: "send_env \<Rightarrow> string \<Rightarrow> chat_state \<Rightarrow> chat_state" where
  "sendMessage env txt st =
     (case sendMessage_start (uid1 env) (now1 env) txt st of
        (st1, query) \<Rightarrow>
          sendMessage_settle (sendQuery query (fetched env)) (uid2 env) (now2 env) st1)"

definition clearMessages :: "chat_state \<Rightarrow> chat_state" where
  "clearMessages st = (st\<lparr>messages := []\<rparr>)\<lparr>error := None\<rparr>"

definition setError :: "string option \<Rightarrow> chat_state \<Rightarrow> chat_state" where
  "setError e st = st\<lparr>error := e\<rparr>"

section \<open>The input box (ChatInput)\<close>

text \<open>
  \<open>String.prototype.trim\<close> strips white space and line terminators from both ends.
  In the modelled range of code units these are TAB, LF, VT, FF, CR, SPACE and NBSP.
\<close>

definition is_ws :: "char \<Rightarrow> bool" where
  "is_ws c = (c \<in> set [CHR 0x09, CHR 0x0A, CHR 0x0B, CHR 0x0C, CHR 0x0D, CHR 0x20, CHR 0xA0])"

definition trim :: "string \<Rightarrow> string" where
  "trim s = rev (dropWhile is_ws (rev (dropWhile is_ws s)))"

text \<open>
  \<open>handleSend\<close> reads the component's \<open>input\<close> state and the \<open>disabled\<close> prop. It
  returns the new \<open>input\<close> and the argument of the call \<open>onSend(trimmed)\<close>, if that
  call is made. A non-empty string is truthy.
\<close>

definition handleSend :: "bool \<Rightarrow> string \<Rightarrow> string \<times> string option" where
  "handleSend disabled input =
     (let trimmed = trim input
      in if trimmed \<noteq> [] \<and> \<not> disabled then ([], Some trimmed) else (input, None))"

section \<open>Persistence (useLocalStorage)\<close>

text \<open>
  The browser's key/value store. A stored text either parses to a sequence of turns
  or it does not.
\<close>

datatype stored = Unparsable | Snapshot "Message list"

type_synonym storage = "string \<rightharpoonup> stored"

text \<open>
  Modelled from the spec: the hook \<open>useLocalStorage\<close> (src/hooks/useLocalStorage) is
  not among the sources. Section 6: reading an absent or unparsable value yields the
  empty sequence, which is the initial value \<open>ChatProvider\<close> passes.
\<close>

definition useLocalStorage_read :: "storage \<Rightarrow> string \<Rightarrow> Message list \<Rightarrow> Message list" where
  "useLocalStorage_read s key initialValue =
     (case s key of
        None \<Rightarrow> initialValue
      | Some Unparsable \<Rightarrow> initialValue
      | Some (Snapshot v) \<Rightarrow> v)"

text \<open>
  Modelled from the spec: the setter returned by \<open>useLocalStorage\<close>. Section 6:
  writing replaces the value wholesale.
\<close>

definition useLocalStorage_write :: "storage \<Rightarrow> string \<Rightarrow> Message list \<Rightarrow> storage" where
  "useLocalStorage_write s key v = s(key \<mapsto> Snapshot v)"

section \<open>The provider (ChatProvider)\<close>

definition STORAGE_KEY :: string where
  "STORAGE_KEY = ''rag-chatbot-messages''"

definition MAX_STORED_MESSAGES :: int where
  "MAX_STORED_MESSAGES = 50"

text \<open>
  \<open>Array.prototype.slice(start)\<close>: a negative \<open>start\<close> counts from the end and is
  clamped at 0, a positive one is clamped at the length.
\<close>

definition slice :: "int \<Rightarrow> 'a list \<Rightarrow> 'a list" where
  "slice start xs =
     (let len = int (length xs);
          k = (if start < 0 then max (len + start) 0 else min start len)
      in drop (nat k) xs)"

record provider =
  isOpen :: bool
  chat :: chat_state
  storage :: storage

definition setStoredMessages :: "Message list \<Rightarrow> provider \<Rightarrow> provider" where
  "setStoredMessages v p = p\<lparr>storage := useLocalStorage_write (storage p) STORAGE_KEY v\<rparr>"

text \<open>The persisted snapshot: what a reader of the storage key gets.\<close>

definition snapshot :: "provider \<Rightarrow> Message list" where
  "snapshot p = useLocalStorage_read (storage p) STORAGE_KEY []"

definition persistMessages :: "Message list \<Rightarrow> provider \<Rightarrow> provider" where
  "persistMessages msgs p =
     (let recentMessages = slice (- MAX_STORED_MESSAGES) msgs
      in setStoredMessages recentMessages p)"

text \<open>
  The effect \<open>useEffect(\<dots>, [messages, persistMessages])\<close>: it runs after the mount
  and after every change of \<open>messages\<close>.
\<close>

definition persist_effect :: "provider \<Rightarrow> provider" where
  "persist_effect p =
     (if length (messages (chat p)) > 0 then persistMessages (messages (chat p)) p else p)"

text \<open>
  Mounting the provider over a given storage, as a page load does: \<open>storedMessages\<close>
  is read once and seeds \<open>useChat\<close>; the effect runs after the first render.
\<close>

definition ChatProvider :: "storage \<Rightarrow> provider" where
  "ChatProvider s =
     (let storedMessages = useLocalStorage_read s STORAGE_KEY []
      in persist_effect \<lparr>isOpen = False, chat = useChat storedMessages, storage = s\<rparr>)"

text \<open>
  The context's \<open>sendMessage\<close> awaits the hook's \<open>sendMessage\<close>; each of its two
  changes of \<open>messages\<close> is followed by the effect.
\<close>

definition provider_send_start ::
  "string \<Rightarrow> int \<Rightarrow> string \<Rightarrow> provider \<Rightarrow> provider \<times> string" where
  "provider_send_start uid now txt p =
     (case sendMessage_start uid now txt (chat p) of
        (st, query) \<Rightarrow> (persist_effect (p\<lparr>chat := st\<rparr>), query))"

definition provider_send_settle ::
  "ChatResponse settled \<Rightarrow> string \<Rightarrow> int \<Rightarrow> provider \<Rightarrow> provider" where
  "provider_send_settle outcome uid now p =
     persist_effect (p\<lparr>chat := sendMessage_settle outcome uid now (chat p)\<rparr>)"

definition clearHistory :: "provider \<Rightarrow> provider" where
  "clearHistory p =
     (let p1 = p\<lparr>chat := clearMessages (chat p)\<rparr>;
          p2 = setStoredMessages [] p1;
          p3 = p2\<lparr>chat := setError None (chat p2)\<rparr>
      in persist_effect p3)"

section \<open>The context hook (useChatContext)\<close>

text \<open>The context value is \<open>undefined\<close> (\<open>None\<close>) when no provider is above.\<close>

definition useChatContext :: "'c option \<Rightarrow> thrown + 'c" where
  "useChatContext context =
     (case context of
        None \<Rightarrow> Inl (Error ''useChatContext must be used within a ChatProvider'')
      | Some c \<Rightarrow> Inr c)"

section \<open>The panel (ChatPanel)\<close>

text \<open>
  \<open>ChatPanel\<close> renders \<open>ChatInput\<close> with \<open>onSend = sendMessage\<close> and
  \<open>disabled = isLoading\<close>. A press of the send button runs \<open>handleSend\<close>; the result
  is the new input text, the new provider state and the query handed to the gateway,
  if any.
\<close>

definition ChatPanel_send ::
  "string \<Rightarrow> int \<Rightarrow> string \<times> provider \<Rightarrow> string \<times> provider \<times> string option" where
  "ChatPanel_send uid now ip =
     (case ip of (input, p) \<Rightarrow>
        (case handleSend (isLoading (chat p)) input of
           (input', None) \<Rightarrow> (input', p, None)
         | (input', Some trimmed) \<Rightarrow>
             (case provider_send_start uid now trimmed p of
                (p', query) \<Rightarrow> (input', p', Some query))))"

section \<open>Sequences of sends\<close>

text \<open>Sends issued one after the other, each settled before the next starts.\<close>

fun sendAll :: "(send_env \<times> string) list \<Rightarrow> chat_state \<Rightarrow> chat_state" where
  "sendAll [] st = st"
| "sendAll ((env, txt) # rest) st = sendAll rest (sendMessage env txt st)"


text \<open>
  The two turns one settled send contributes to the log: the user's turn, then the
  response turn, which is the assistant's answer or the synthesized apology.
\<close>

fun exchange :: "send_env \<times> string \<Rightarrow> Message list" where
  "exchange (env, txt) =
     [\<lparr>id_m = uid1 env, role = User, content = txt, timestamp = now1 env, sources = None\<rparr>,
      (case sendQuery txt (fetched env) of
         Resolved r \<Rightarrow>
           \<lparr>id_m = uid2 env, role = Assistant, content = response r, timestamp = now2 env,
            sources = Some (sources_r r)\<rparr>
       | Rejected t \<Rightarrow>
           \<lparr>id_m = uid2 env, role = Assistant,
            content = ''Sorry, I encountered an error: '' @ errorMessage t @
                      ''. Please try again.'',
            timestamp = now2 env, sources = None\<rparr>)]"

section \<open>Single flight and validation\<close>

lemma dropWhile_all: "(\<forall>x\<in>set (dropWhile P s). P x) \<longleftrightarrow> (\<forall>x\<in>set s. P x)"
proof
  assume a: "\<forall>x\<in>set (dropWhile P s). P x"
  have "set s = set (takeWhile P s) \<union> set (dropWhile P s)"
    by (metis set_append takeWhile_dropWhile_id)
  with a show "\<forall>x\<in>set s. P x"
    by (auto dest: set_takeWhileD)
next
  assume "\<forall>x\<in>set s. P x"
  then show "\<forall>x\<in>set (dropWhile P s). P x"
    by (auto dest: set_dropWhileD)
qed

lemma trim_Nil_iff: "trim s = [] \<longleftrightarrow> (\<forall>c\<in>set s. is_ws c)"
  by (simp add: trim_def dropWhile_all)

lemma handleSend_disabled: "handleSend True input = (input, None)"
  by (simp add: handleSend_def)

lemma handleSend_blank: "trim input = [] \<Longrightarrow> handleSend disabled input = (input, None)"
  by (simp add: handleSend_def)

text \<open>
  C1 (as amended). The single-flight guard is in the input box, not in the send
  operation: \<open>handleSend\<close> with \<open>disabled\<close> set never calls \<open>onSend\<close> and keeps
  the input text, and \<open>ChatPanel\<close> passes \<open>isLoading\<close> as \<open>disabled\<close>. So while a
  send is in flight, a send attempted through the input box appends no turn, hands no
  query to the gateway and leaves the session state as it is, for every input text.
\<close>

theorem busy_send_rejected_by_input:
  "handleSend True input = (input, None) \<and>
   (isLoading (chat p) \<longrightarrow> ChatPanel_send uid now (input, p) = (input, p, None))"
  by (simp add: ChatPanel_send_def handleSend_disabled)

theorem busy_send_rejected_by_input_witness:
  "isLoading (chat \<lparr>isOpen = True,
                    chat = \<lparr>messages = [\<lparr>id_m = ''u1'', role = User, content = ''first'',
                                         timestamp = 1, sources = None\<rparr>],
                            isLoading = True, error = None\<rparr>,
                    storage = Map.empty\<rparr>) \<and>
   ChatPanel_send ''u2'' 2
     (''again'',
      \<lparr>isOpen = True,
       chat = \<lparr>messages = [\<lparr>id_m = ''u1'', role = User, content = ''first'',
                            timestamp = 1, sources = None\<rparr>],
               isLoading = True, error = None\<rparr>,
       storage = Map.empty\<rparr>) =
     (''again'',
      \<lparr>isOpen = True,
       chat = \<lparr>messages = [\<lparr>id_m = ''u1'', role = User, content = ''first'',
                            timestamp = 1, sources = None\<rparr>],
               isLoading = True, error = None\<rparr>,
       storage = Map.empty\<rparr>, None)"
  using busy_send_rejected_by_input
    [of "''again''"
        "\<lparr>isOpen = True,
          chat = \<lparr>messages = [\<lparr>id_m = ''u1'', role = User, content = ''first'',
                               timestamp = 1, sources = None\<rparr>],
                  isLoading = True, error = None\<rparr>,
          storage = Map.empty\<rparr>" "''u2''" 2]
  by simp

text \<open>
  The send operation of the hook has no guard of its own: called in a state whose
  \<open>isLoading\<close> is true, it appends a second user turn and hands the text to the
  gateway.
\<close>

theorem second_send_while_busy_counterexample:
  "isLoading \<lparr>messages = [\<lparr>id_m = ''u1'', role = User, content = ''first'', timestamp = 1,
                             sources = None\<rparr>],
              isLoading = True, error = None\<rparr> \<and>
   sendMessage_start ''u2'' 2 ''again''
     \<lparr>messages = [\<lparr>id_m = ''u1'', role = User, content = ''first'', timestamp = 1,
                   sources = None\<rparr>],
      isLoading = True, error = None\<rparr> =
   (\<lparr>messages = [\<lparr>id_m = ''u1'', role = User, content = ''first'', timestamp = 1,
                   sources = None\<rparr>,
                 \<lparr>id_m = ''u2'', role = User, content = ''again'', timestamp = 2,
                   sources = None\<rparr>],
      isLoading = True, error = None\<rparr>, ''again'')"
  by (simp add: sendMessage_start_def)

text \<open>
  C2 (as amended). Validation is in the input box, not in the send operation: for
  every input text that is empty or consists of white space only, \<open>trim\<close> yields the
  empty string, \<open>handleSend\<close> does not call \<open>onSend\<close> whatever \<open>disabled\<close> is, and a
  send attempted through the panel creates no turn, hands no query to the gateway and
  leaves the whole session state, \<open>isLoading\<close> included, unchanged.
\<close>

theorem blank_input_not_sent:
  assumes "\<forall>c\<in>set input. is_ws c"
  shows "trim input = [] \<and> handleSend disabled input = (input, None) \<and>
         ChatPanel_send uid now (input, p) = (input, p, None)"
proof -
  from assms have t: "trim input = []" by (simp add: trim_Nil_iff)
  then have "handleSend d input = (input, None)" for d
    by (rule handleSend_blank)
  with t show ?thesis by (simp add: ChatPanel_send_def)
qed

theorem blank_input_not_sent_witness:
  "trim ''   '' = [] \<and> handleSend False ''   '' = (''   '', None) \<and>
   ChatPanel_send ''u1'' 1 (''   '', ChatProvider Map.empty) =
     (''   '', ChatProvider Map.empty, None)"
proof -
  have h: "\<forall>c\<in>set ''   ''. is_ws c" by (simp add: is_ws_def)
  from blank_input_not_sent [OF h, of False "''u1''" 1 "ChatProvider Map.empty"]
  show ?thesis by simp
qed

text \<open>
  The send operation of the hook does not validate its argument: called with three
  spaces on a fresh session, it creates a user turn with that content, hands the text
  to the gateway and turns \<open>isLoading\<close> from false to true.
\<close>

theorem blank_send_counterexample:
  "sendMessage_start ''u1'' 1 ''   '' (useChat []) =
   (\<lparr>messages = [\<lparr>id_m = ''u1'', role = User, content = ''   '', timestamp = 1,
                   sources = None\<rparr>],
      isLoading = True, error = None\<rparr>, ''   '') \<and>
   isLoading (useChat []) = False \<and> trim ''   '' = []"
  by (simp add: sendMessage_start_def useChat_def trim_def is_ws_def)

section \<open>Settling a send\<close>

lemma isLoading_settle: "isLoading (sendMessage_settle outcome uid now st) = False"
  by (simp add: sendMessage_settle_def Let_def split: settled.split)

text \<open>
  C3. Whatever the gateway does (it resolves, or it rejects with an \<open>Error\<close> or with
  any other thrown value), the busy flag \<open>isLoading\<close> is false once the send has
  settled, from every state and for every text.
\<close>

theorem busy_flag_released:
  "isLoading (sendMessage_settle outcome uid now st) = False \<and>
   isLoading (sendMessage env txt st) = False"
  by (simp add: sendMessage_def isLoading_settle split: prod.split)

lemma sendMessage_rejected:
  assumes "sendQuery txt (fetched env) = Rejected t"
  shows "sendMessage env txt st =
           \<lparr>messages = messages st @
              [\<lparr>id_m = uid1 env, role = User, content = txt, timestamp = now1 env,
                sources = None\<rparr>,
               \<lparr>id_m = uid2 env, role = Assistant, content = apology (errorMessage t),
                timestamp = now2 env, sources = None\<rparr>],
            isLoading = False, error = Some (errorMessage t)\<rparr>"
  using assms
  by (simp add: sendMessage_def sendMessage_start_def sendMessage_settle_def Let_def)

lemma sendMessage_resolved:
  assumes "sendQuery txt (fetched env) = Resolved r"
  shows "sendMessage env txt st =
           \<lparr>messages = messages st @
              [\<lparr>id_m = uid1 env, role = User, content = txt, timestamp = now1 env,
                sources = None\<rparr>,
               \<lparr>id_m = uid2 env, role = Assistant, content = response r,
                timestamp = now2 env, sources = Some (sources_r r)\<rparr>],
            isLoading = False, error = None\<rparr>"
  using assms
  by (simp add: sendMessage_def sendMessage_start_def sendMessage_settle_def Let_def)

text \<open>
  C4. When the gateway fails, the send leaves the user's turn in the log and appends
  exactly one assistant turn after it, whose content is the apology template around a
  message \<open>m\<close>, and \<open>error\<close> is \<open>m\<close>. The message is the thrown \<open>Error\<close>'s own
  message, which for a response that is not ok is the body's \<open>error\<close> field when that
  is non-empty and \<open>Failed to get response\<close> when it is empty; for a thrown value
  that is no \<open>Error\<close> it is \<open>Failed to send message\<close>.
\<close>

theorem gateway_failure_visible:
  assumes "sendQuery txt (fetched env) = Rejected t"
  shows "\<exists>m. error (sendMessage env txt st) = Some m \<and>
           messages (sendMessage env txt st) =
             messages st @
               [\<lparr>id_m = uid1 env, role = User, content = txt, timestamp = now1 env,
                 sources = None\<rparr>,
                \<lparr>id_m = uid2 env, role = Assistant,
                 content = ''Sorry, I encountered an error: '' @ m @ ''. Please try again.'',
                 timestamp = now2 env, sources = None\<rparr>] \<and>
           (\<forall>msg. t = Error msg \<longrightarrow> m = msg) \<and>
           (t = NonError \<longrightarrow> m = ''Failed to send message'') \<and>
           (\<forall>e. fetched env = NotOk (Resolved e) \<and> error_e e \<noteq> [] \<longrightarrow> m = error_e e) \<and>
           (\<forall>e. fetched env = NotOk (Resolved e) \<and> error_e e = [] \<longrightarrow>
                  m = ''Failed to get response'')"
proof (intro exI conjI allI impI)
  show "error (sendMessage env txt st) = Some (errorMessage t)"
    by (simp add: sendMessage_rejected [OF assms])
  show "messages (sendMessage env txt st) =
          messages st @
            [\<lparr>id_m = uid1 env, role = User, content = txt, timestamp = now1 env,
              sources = None\<rparr>,
             \<lparr>id_m = uid2 env, role = Assistant,
              content = ''Sorry, I encountered an error: '' @ errorMessage t @
                        ''. Please try again.'',
              timestamp = now2 env, sources = None\<rparr>]"
    by (simp add: sendMessage_rejected [OF assms] apology_def)
  show "errorMessage t = msg" if "t = Error msg" for msg
    using that by (simp add: errorMessage_def)
  show "errorMessage t = ''Failed to send message''" if "t = NonError"
    using that by (simp add: errorMessage_def)
  show "errorMessage t = error_e e"
    if "fetched env = NotOk (Resolved e) \<and> error_e e \<noteq> []" for e
    using that assms by (auto simp: errorMessage_def or_else_def)
  show "errorMessage t = ''Failed to get response''"
    if "fetched env = NotOk (Resolved e) \<and> error_e e = []" for e
    using that assms by (auto simp: errorMessage_def or_else_def)
qed

theorem gateway_failure_visible_witness:
  "sendQuery ''trigger failure''
     (fetched \<lparr>uid1 = ''u1'', now1 = 1,
               fetched = NotOk (Resolved \<lparr>error_e = ''rate limited'', code_e = ''429''\<rparr>),
               uid2 = ''a1'', now2 = 2\<rparr>) = Rejected (Error ''rate limited'') \<and>
   error (sendMessage \<lparr>uid1 = ''u1'', now1 = 1,
                       fetched = NotOk (Resolved \<lparr>error_e = ''rate limited'', code_e = ''429''\<rparr>),
                       uid2 = ''a1'', now2 = 2\<rparr> ''trigger failure'' (useChat [])) =
     Some ''rate limited'' \<and>
   messages (sendMessage \<lparr>uid1 = ''u1'', now1 = 1,
                       fetched = NotOk (Resolved \<lparr>error_e = ''rate limited'', code_e = ''429''\<rparr>),
                       uid2 = ''a1'', now2 = 2\<rparr> ''trigger failure'' (useChat [])) =
     [\<lparr>id_m = ''u1'', role = User, content = ''trigger failure'', timestamp = 1,
       sources = None\<rparr>,
      \<lparr>id_m = ''a1'', role = Assistant,
       content = ''Sorry, I encountered an error: rate limited. Please try again.'',
       timestamp = 2, sources = None\<rparr>]"
proof -
  have h: "sendQuery ''trigger failure''
     (fetched \<lparr>uid1 = ''u1'', now1 = 1,
               fetched = NotOk (Resolved \<lparr>error_e = ''rate limited'', code_e = ''429''\<rparr>),
               uid2 = ''a1'', now2 = 2\<rparr>) = Rejected (Error ''rate limited'')"
    by (simp add: or_else_def)
  from gateway_failure_visible [OF h, of "useChat []"] h
  show ?thesis by (auto simp: useChat_def)
qed

section \<open>Ordering of turns\<close>

lemma messages_sendMessage:
  "messages (sendMessage env txt st) = messages st @ exchange (env, txt)"
  by (cases "sendQuery txt (fetched env)")
     (simp_all add: sendMessage_resolved sendMessage_rejected apology_def)

lemma messages_sendAll:
  "messages (sendAll sends st) = messages st @ concat (map exchange sends)"
  by (induction sends st rule: sendAll.induct) (simp_all add: messages_sendMessage)

lemma roles_exchange: "map role (exchange s) = [User, Assistant]"
  by (cases s) (simp split: settled.split)

lemma roles_exchanges:
  "map role (concat (map exchange sends)) = concat (replicate (length sends) [User, Assistant])"
  by (induction sends) (simp_all add: roles_exchange)

lemma user_contents:
  "map content (filter (\<lambda>m. role m = User) (concat (map exchange sends))) = map snd sends"
  by (induction sends) (auto split: settled.split)

text \<open>
  C6. A sequence of sends, each settled before the next is issued, appends to the log
  the exchanges of the sends in the order of issue, each exchange being the user's turn
  directly followed by its one response turn (answer or apology). The roles of the
  appended turns alternate user, assistant, and the texts of the user turns are the
  texts sent, in order; from an empty log the whole log alternates.
\<close>

theorem turns_alternate_in_send_order:
  "messages (sendAll sends st) = messages st @ concat (map exchange sends) \<and>
   map role (concat (map exchange sends)) = concat (replicate (length sends) [User, Assistant]) \<and>
   map content (filter (\<lambda>m. role m = User) (concat (map exchange sends))) = map snd sends \<and>
   map role (messages (sendAll sends (useChat []))) =
     concat (replicate (length sends) [User, Assistant])"
  by (simp add: messages_sendAll roles_exchanges user_contents useChat_def)

section \<open>Persistence\<close>

lemma slice_last: "slice (- MAX_STORED_MESSAGES) xs = drop (length xs - 50) xs"
  by (auto simp: slice_def MAX_STORED_MESSAGES_def Let_def max_def
           intro: arg_cong [where f = "\<lambda>k. drop k xs"])

lemma snapshot_persistMessages:
  "snapshot (persistMessages msgs p) = drop (length msgs - 50) msgs"
  by (simp add: snapshot_def persistMessages_def setStoredMessages_def
      useLocalStorage_read_def useLocalStorage_write_def slice_last)

lemma chat_persistMessages: "chat (persistMessages msgs p) = chat p"
  by (simp add: persistMessages_def setStoredMessages_def)

lemma chat_persist_effect: "chat (persist_effect p) = chat p"
  by (simp add: persist_effect_def chat_persistMessages)

lemma snapshot_persist_effect:
  "messages (chat p) \<noteq> [] \<Longrightarrow>
   snapshot (persist_effect p) = drop (length (messages (chat p)) - 50) (messages (chat p))"
  by (simp add: persist_effect_def snapshot_persistMessages)

lemma persist_effect_empty: "messages (chat p) = [] \<Longrightarrow> persist_effect p = p"
  by (simp add: persist_effect_def)

lemma tail_split: "\<exists>older. ms = older @ drop (length ms - 50) ms"
  by (metis append_take_drop_id)

lemma drop_nonempty: "ms \<noteq> [] \<Longrightarrow> drop (length ms - 50) ms \<noteq> []"
  by (cases ms) auto

lemma start_nonempty: "messages (fst (sendMessage_start uid now txt st)) \<noteq> []"
  by (simp add: sendMessage_start_def Let_def)

lemma settle_nonempty: "messages (sendMessage_settle outcome uid now st) \<noteq> []"
  by (simp add: sendMessage_settle_def Let_def split: settled.split)

lemma snapshot_after_start:
  "snapshot (fst (provider_send_start uid now txt p)) =
   drop (length (messages (chat (fst (provider_send_start uid now txt p)))) - 50)
        (messages (chat (fst (provider_send_start uid now txt p))))"
proof -
  obtain st q where sq: "sendMessage_start uid now txt (chat p) = (st, q)"
    by (cases "sendMessage_start uid now txt (chat p)")
  have ne: "messages st \<noteq> []"
    using start_nonempty [of uid now "txt" "chat p"] sq by simp
  show ?thesis
    using ne by (simp add: provider_send_start_def sq chat_persist_effect snapshot_persist_effect)
qed

lemma snapshot_after_settle:
  "snapshot (provider_send_settle outcome uid now p) =
   drop (length (messages (chat (provider_send_settle outcome uid now p))) - 50)
        (messages (chat (provider_send_settle outcome uid now p)))"
  by (simp add: provider_send_settle_def chat_persist_effect snapshot_persist_effect
      settle_nonempty)

text \<open>
  C5. When the persistence effect runs on a non-empty log, the persisted snapshot is
  the last \<open>min 50 (length log)\<close> turns of the log in their order: the log is some
  older turns followed by the snapshot. With \<open>50 + k\<close> turns, \<open>k > 0\<close>, the snapshot
  is the log without its first \<open>k\<close> turns and has exactly 50 turns. Both changes a
  send makes to the log (the user's turn, the response turn) leave the snapshot in
  that relation to the log.
\<close>

theorem snapshot_is_recent_tail:
  assumes "messages (chat p) \<noteq> []"
  shows "snapshot (persist_effect p) =
           drop (length (messages (chat p)) - 50) (messages (chat p)) \<and>
         length (snapshot (persist_effect p)) = min 50 (length (messages (chat p))) \<and>
         (\<exists>older. messages (chat p) = older @ snapshot (persist_effect p)) \<and>
         (\<forall>k. 0 < k \<and> length (messages (chat p)) = 50 + k \<longrightarrow>
              snapshot (persist_effect p) = drop k (messages (chat p)) \<and>
              length (snapshot (persist_effect p)) = 50) \<and>
         snapshot (fst (provider_send_start uid now txt p)) =
           drop (length (messages (chat (fst (provider_send_start uid now txt p)))) - 50)
                (messages (chat (fst (provider_send_start uid now txt p)))) \<and>
         snapshot (provider_send_settle outcome uid now p) =
           drop (length (messages (chat (provider_send_settle outcome uid now p))) - 50)
                (messages (chat (provider_send_settle outcome uid now p)))"
proof -
  let ?ms = "messages (chat p)"
  have s: "snapshot (persist_effect p) = drop (length ?ms - 50) ?ms"
    using assms by (rule snapshot_persist_effect)
  have l: "length (snapshot (persist_effect p)) = min 50 (length ?ms)"
    unfolding s by simp
  have e: "\<exists>older. ?ms = older @ snapshot (persist_effect p)"
    unfolding s by (rule tail_split)
  have k: "snapshot (persist_effect p) = drop k ?ms \<and> length (snapshot (persist_effect p)) = 50"
    if "0 < k \<and> length ?ms = 50 + k" for k
    unfolding s using that by simp
  from s l e k snapshot_after_start snapshot_after_settle show ?thesis by blast
qed

theorem snapshot_is_recent_tail_witness:
  "messages (chat \<lparr>isOpen = False,
      chat = useChat (map (\<lambda>i. \<lparr>id_m = ''m'', role = User, content = ''q'',
                                  timestamp = int i, sources = None\<rparr>) [0..<52]),
      storage = Map.empty\<rparr>) \<noteq> [] \<and>
   snapshot (persist_effect \<lparr>isOpen = False,
      chat = useChat (map (\<lambda>i. \<lparr>id_m = ''m'', role = User, content = ''q'',
                                  timestamp = int i, sources = None\<rparr>) [0..<52]),
      storage = Map.empty\<rparr>) =
     map (\<lambda>i. \<lparr>id_m = ''m'', role = User, content = ''q'',
                 timestamp = int i, sources = None\<rparr>) [2..<52] \<and>
   length (snapshot (persist_effect \<lparr>isOpen = False,
      chat = useChat (map (\<lambda>i. \<lparr>id_m = ''m'', role = User, content = ''q'',
                                  timestamp = int i, sources = None\<rparr>) [0..<52]),
      storage = Map.empty\<rparr>)) = 50"
proof -
  let ?p = "\<lparr>isOpen = False,
      chat = useChat (map (\<lambda>i. \<lparr>id_m = ''m'', role = User, content = ''q'',
                                  timestamp = int i, sources = None\<rparr>) [0..<52]),
      storage = Map.empty\<rparr>"
  have h: "messages (chat ?p) \<noteq> []"
    by (simp add: useChat_def)
  have len: "length (messages (chat ?p)) = 50 + 2"
    by (simp add: useChat_def)
  from snapshot_is_recent_tail [OF h]
  have "\<forall>k. 0 < k \<and> length (messages (chat ?p)) = 50 + k \<longrightarrow>
          snapshot (persist_effect ?p) = drop k (messages (chat ?p)) \<and>
          length (snapshot (persist_effect ?p)) = 50"
    by blast
  with len have "snapshot (persist_effect ?p) = drop 2 (messages (chat ?p)) \<and>
          length (snapshot (persist_effect ?p)) = 50"
    by (metis zero_less_numeral)
  moreover have "drop 2 (messages (chat ?p)) =
      map (\<lambda>i. \<lparr>id_m = ''m'', role = User, content = ''q'',
                 timestamp = int i, sources = None\<rparr>) [2..<52]"
  proof -
    have "drop 2 (map f [0..<52]) = map f [2..<52]" for f :: "nat \<Rightarrow> Message"
      by (simp only: drop_map drop_upt add_0)
    then show ?thesis by (simp only: useChat_def chat_state.simps provider.simps)
  qed
  ultimately show ?thesis using h by simp
qed

section \<open>Clearing and reloading\<close>

text \<open>
  C7. After \<open>clearHistory\<close> the log is empty, \<open>error\<close> is absent and the storage key
  holds the empty sequence, so the snapshot is empty and a provider mounted over that
  storage starts with an empty log. Clearing a cleared session changes nothing.
\<close>

theorem clear_semantics:
  "messages (chat (clearHistory p)) = [] \<and>
   error (chat (clearHistory p)) = None \<and>
   storage (clearHistory p) STORAGE_KEY = Some (Snapshot []) \<and>
   snapshot (clearHistory p) = [] \<and>
   messages (chat (ChatProvider (storage (clearHistory p)))) = [] \<and>
   clearHistory (clearHistory p) = clearHistory p"
  by (simp add: clearHistory_def clearMessages_def setError_def setStoredMessages_def
      persist_effect_def snapshot_def useLocalStorage_read_def useLocalStorage_write_def
      ChatProvider_def useChat_def Let_def)

lemma ChatProvider_messages:
  "messages (chat (ChatProvider s)) = useLocalStorage_read s STORAGE_KEY []"
  by (simp add: ChatProvider_def Let_def chat_persist_effect useChat_def)

text \<open>
  C8. A log of at most 50 turns written with \<open>persistMessages\<close> is stored whole, and a
  provider mounted over the resulting storage starts with exactly that log, turn for
  turn with every field; the effect that runs at the mount stores the same log again.
  Mounting trims nothing: over any storage the initial log is what the storage key
  reads as.
\<close>

theorem persistence_roundtrip:
  assumes "length msgs \<le> 50"
  shows "snapshot (persistMessages msgs p) = msgs \<and>
         messages (chat (ChatProvider (storage (persistMessages msgs p)))) = msgs \<and>
         snapshot (ChatProvider (storage (persistMessages msgs p))) = msgs \<and>
         messages (chat (ChatProvider s)) = useLocalStorage_read s STORAGE_KEY []"
proof -
  have s: "snapshot (persistMessages msgs p) = msgs"
    using assms by (simp add: snapshot_persistMessages)
  then have r: "useLocalStorage_read (storage (persistMessages msgs p)) STORAGE_KEY [] = msgs"
    by (simp add: snapshot_def)
  have m: "messages (chat (ChatProvider (storage (persistMessages msgs p)))) = msgs"
    by (simp add: ChatProvider_messages r)
  have "snapshot (ChatProvider (storage (persistMessages msgs p))) = msgs"
  proof (cases "msgs = []")
    case True
    with r show ?thesis
      by (simp add: ChatProvider_def Let_def persist_effect_def useChat_def snapshot_def)
  next
    case False
    let ?q = "\<lparr>isOpen = False, chat = useChat msgs, storage = storage (persistMessages msgs p)\<rparr>"
    have "ChatProvider (storage (persistMessages msgs p)) = persist_effect ?q"
      by (simp add: ChatProvider_def Let_def r)
    moreover have "messages (chat ?q) \<noteq> []"
      using False by (simp add: useChat_def)
    ultimately show ?thesis
      using assms by (simp add: snapshot_persist_effect useChat_def)
  qed
  with s m ChatProvider_messages [of s] show ?thesis by simp
qed

theorem persistence_roundtrip_witness:
  "length [\<lparr>id_m = ''u1'', role = User, content = ''What is ROS 2?'', timestamp = 1,
            sources = None\<rparr>,
           \<lparr>id_m = ''a1'', role = Assistant, content = ''ROS 2 is...'', timestamp = 2,
            sources = Some [\<lparr>title = ''ROS 2 Intro'', url = ''/docs/ros2'',
                             module_s = ''robotics'', chapter_s = None\<rparr>]\<rparr>] \<le> 50 \<and>
   messages (chat (ChatProvider (storage (persistMessages
          [\<lparr>id_m = ''u1'', role = User, content = ''What is ROS 2?'', timestamp = 1,
            sources = None\<rparr>,
           \<lparr>id_m = ''a1'', role = Assistant, content = ''ROS 2 is...'', timestamp = 2,
            sources = Some [\<lparr>title = ''ROS 2 Intro'', url = ''/docs/ros2'',
                             module_s = ''robotics'', chapter_s = None\<rparr>]\<rparr>]
          (ChatProvider Map.empty))))) =
          [\<lparr>id_m = ''u1'', role = User, content = ''What is ROS 2?'', timestamp = 1,
            sources = None\<rparr>,
           \<lparr>id_m = ''a1'', role = Assistant, content = ''ROS 2 is...'', timestamp = 2,
            sources = Some [\<lparr>title = ''ROS 2 Intro'', url = ''/docs/ros2'',
                             module_s = ''robotics'', chapter_s = None\<rparr>]\<rparr>]"
proof -
  have h: "length [\<lparr>id_m = ''u1'', role = User, content = ''What is ROS 2?'', timestamp = 1,
            sources = None\<rparr>,
           \<lparr>id_m = ''a1'', role = Assistant, content = ''ROS 2 is...'', timestamp = 2,
            sources = Some [\<lparr>title = ''ROS 2 Intro'', url = ''/docs/ros2'',
                             module_s = ''robotics'', chapter_s = None\<rparr>]\<rparr>] \<le> 50"
    by simp
  from persistence_roundtrip [OF h, of "ChatProvider Map.empty" Map.empty] h
  show ?thesis by blast
qed

section \<open>The context hook\<close>

text \<open>
  C9. \<open>useChatContext\<close> throws an \<open>Error\<close> when the context is undefined, that is
  when no provider supplied a value, and returns the provider's value unchanged
  otherwise; it throws in no other case.
\<close>

theorem useChatContext_guard:
  "useChatContext None = Inl (Error ''useChatContext must be used within a ChatProvider'') \<and>
   useChatContext (Some c) = Inr c \<and>
   (\<forall>ctx. (\<exists>e. useChatContext ctx = Inl e) = (ctx = None))"
  by (auto simp: useChatContext_def split: option.splits)

section \<open>The effect and the empty log\<close>

text \<open>
  C10. The persistence effect writes only for a non-empty log. On an empty log it
  leaves the whole state, the storage included, as it is; it never turns a non-empty
  snapshot into an empty one, since what it writes for a non-empty log is non-empty.
  The empty sequence is stored by \<open>clearHistory\<close>.
\<close>

theorem effect_never_erases:
  "(messages (chat p) = [] \<longrightarrow> persist_effect p = p) \<and>
   (messages (chat p) \<noteq> [] \<longrightarrow> snapshot (persist_effect p) \<noteq> []) \<and>
   (snapshot p \<noteq> [] \<longrightarrow> snapshot (persist_effect p) \<noteq> []) \<and>
   snapshot (clearHistory p) = []"
proof -
  have a: "messages (chat p) = [] \<longrightarrow> persist_effect p = p"
    by (simp add: persist_effect_empty)
  have b: "messages (chat p) \<noteq> [] \<longrightarrow> snapshot (persist_effect p) \<noteq> []"
  proof
    assume ne: "messages (chat p) \<noteq> []"
    show "snapshot (persist_effect p) \<noteq> []"
      unfolding snapshot_persist_effect [OF ne] using ne by (rule drop_nonempty)
  qed
  have c: "snapshot p \<noteq> [] \<longrightarrow> snapshot (persist_effect p) \<noteq> []"
    using a b by (cases "messages (chat p) = []") auto
  have d: "snapshot (clearHistory p) = []"
    by (simp add: clearHistory_def clearMessages_def setError_def setStoredMessages_def
      persist_effect_def snapshot_def useLocalStorage_read_def useLocalStorage_write_def Let_def)
  from a b c d show ?thesis by blast
qed

theorem effect_never_erases_witness:
  "messages (chat \<lparr>isOpen = False, chat = useChat [],
                   storage = [STORAGE_KEY \<mapsto> Snapshot
                     [\<lparr>id_m = ''u1'', role = User, content = ''hello'', timestamp = 1,
                       sources = None\<rparr>]]\<rparr>) = [] \<and>
   snapshot \<lparr>isOpen = False, chat = useChat [],
             storage = [STORAGE_KEY \<mapsto> Snapshot
               [\<lparr>id_m = ''u1'', role = User, content = ''hello'', timestamp = 1,
                 sources = None\<rparr>]]\<rparr> \<noteq> [] \<and>
   snapshot (persist_effect \<lparr>isOpen = False, chat = useChat [],
             storage = [STORAGE_KEY \<mapsto> Snapshot
               [\<lparr>id_m = ''u1'', role = User, content = ''hello'', timestamp = 1,
                 sources = None\<rparr>]]\<rparr>) =
     [\<lparr>id_m = ''u1'', role = User, content = ''hello'', timestamp = 1, sources = None\<rparr>] \<and>
   messages (chat \<lparr>isOpen = False,
                   chat = useChat [\<lparr>id_m = ''u2'', role = User, content = ''again'',
                                    timestamp = 2, sources = None\<rparr>],
                   storage = Map.empty\<rparr>) \<noteq> [] \<and>
   snapshot (persist_effect \<lparr>isOpen = False,
                   chat = useChat [\<lparr>id_m = ''u2'', role = User, content = ''again'',
                                    timestamp = 2, sources = None\<rparr>],
                   storage = Map.empty\<rparr>) \<noteq> []"
proof -
  let ?p = "\<lparr>isOpen = False, chat = useChat [],
             storage = [STORAGE_KEY \<mapsto> Snapshot
               [\<lparr>id_m = ''u1'', role = User, content = ''hello'', timestamp = 1,
                 sources = None\<rparr>]]\<rparr>"
  let ?q = "\<lparr>isOpen = False,
                   chat = useChat [\<lparr>id_m = ''u2'', role = User, content = ''again'',
                                    timestamp = 2, sources = None\<rparr>],
                   storage = Map.empty\<rparr>"
  have e: "messages (chat ?p) = []"
    by (simp add: useChat_def)
  have n: "snapshot ?p \<noteq> []"
    by (simp add: snapshot_def useLocalStorage_read_def)
  have s: "snapshot ?p =
     [\<lparr>id_m = ''u1'', role = User, content = ''hello'', timestamp = 1, sources = None\<rparr>]"
    by (simp add: snapshot_def useLocalStorage_read_def)
  have m: "messages (chat ?q) \<noteq> []"
    by (simp add: useChat_def)
  from effect_never_erases [of ?p] e have "persist_effect ?p = ?p"
    by blast
  with s have "snapshot (persist_effect ?p) =
     [\<lparr>id_m = ''u1'', role = User, content = ''hello'', timestamp = 1, sources = None\<rparr>]"
    by simp
  moreover from effect_never_erases [of ?q] m have "snapshot (persist_effect ?q) \<noteq> []"
    by blast
  ultimately show ?thesis using e n m by blast
qed

end
